theory Spec2Isabelle
  imports Complex_Main "HOL-Library.Word" "HOL-Library.Sublist"
begin

section \<open>Data model\<close>

text \<open>
  The pipeline of \<^verbatim>\<open>terrace_extractor.py\<close>: image, edge mask, skeleton mask, traced
  contours, world-space polylines, length filter, output files.

  Binary masks are numpy arrays of dtype \<^verbatim>\<open>uint8\<close>: rows of 8-bit words. A contour is
  the list of pixels \<^verbatim>\<open>(p[0][0], p[0][1])\<close> = (col, row) that OpenCV traced, with integer
  coordinates. World coordinates are Python floats; they are modelled as real numbers,
  so rounding is not part of the model.
\<close>

type_synonym mask = "8 word list list"
type_synonym pixel = "int \<times> int"
type_synonym contour = "pixel list"
type_synonym point = "real \<times> real"
type_synonym linestring = "point list"

text \<open>The six coefficients of a rasterio \<^verbatim>\<open>Affine\<close> (attributes \<^verbatim>\<open>a\<close> .. \<^verbatim>\<open>f\<close>).\<close>

record Affine =
  tr_a :: real
  tr_b :: real
  tr_c :: real
  tr_d :: real
  tr_e :: real
  tr_f :: real

text \<open>
  A coordinate reference system is either the one read from the raster file or the one
  that \<^verbatim>\<open>set_crs\<close>/\<^verbatim>\<open>to_crs\<close> build from an EPSG code.
\<close>

datatype CRS = EPSG int | FileCRS string

text \<open>A \<^verbatim>\<open>GeoDataFrame\<close>: the geometry column, in row order, and the optional CRS.\<close>

record GeoDataFrame =
  geometry :: "linestring list"
  crs :: "CRS option"

section \<open>Skeleton vectorizer\<close>

text \<open>
  Shapely's constructor \<^verbatim>\<open>LineString(pts)\<close> raises on a single coordinate pair and keeps
  the coordinates, in order, otherwise (no pair at all gives the empty line string).
  \<^verbatim>\<open>None\<close> stands for the exception, which the caller swallows.
\<close>

definition LineString :: "point list \<Rightarrow> linestring option" where
  "LineString pts = (if length pts = 1 then None else Some pts)"

text \<open>\<^verbatim>\<open>gdf.set_crs(epsg)\<close> on a frame without CRS tags it with the CRS of that code.\<close>

definition set_crs :: "GeoDataFrame \<Rightarrow> int \<Rightarrow> GeoDataFrame" where
  "set_crs gdf code = gdf\<lparr>crs := Some (EPSG code)\<rparr>"

text \<open>
  The loop of the georeferenced branch (lines 66-70), \<^verbatim>\<open>lines\<close> being the list built so
  far: a contour of fewer than two points is skipped, a failed construction is
  swallowed by the bare \<^verbatim>\<open>except\<close>.
\<close>

fun geo_loop :: "real \<Rightarrow> real \<Rightarrow> real \<Rightarrow> real \<Rightarrow> contour list \<Rightarrow> linestring list \<Rightarrow> linestring list" where
  "geo_loop a e c f [] lines = lines"
| "geo_loop a e c f (cnt # rest) lines =
     (if length cnt < 2 then geo_loop a e c f rest lines
      else (let pts = map (\<lambda>p. (c + of_int (fst p) * a, f + of_int (snd p) * e)) cnt
            in case LineString pts of
                 Some l \<Rightarrow> geo_loop a e c f rest (lines @ [l])
               | None \<Rightarrow> geo_loop a e c f rest lines))"

text \<open>The loop of the fallback branch (lines 75-79).\<close>

fun fallback_loop :: "real \<Rightarrow> real \<Rightarrow> real \<Rightarrow> contour list \<Rightarrow> linestring list \<Rightarrow> linestring list" where
  "fallback_loop x0 y0 pixel_size [] lines = lines"
| "fallback_loop x0 y0 pixel_size (cnt # rest) lines =
     (if length cnt < 2 then fallback_loop x0 y0 pixel_size rest lines
      else (let pts = map (\<lambda>p. (x0 + of_int (fst p) * pixel_size,
                                  y0 - of_int (snd p) * pixel_size)) cnt
            in case LineString pts of
                 Some l \<Rightarrow> fallback_loop x0 y0 pixel_size rest (lines @ [l])
               | None \<Rightarrow> fallback_loop x0 y0 pixel_size rest lines))"

text \<open>
  \<^verbatim>\<open>vectorize_skeleton\<close>. The contour tracer \<^verbatim>\<open>cv2.findContours\<close> is OpenCV's; it is the
  parameter \<open>findContours\<close>, applied to the mask scaled by 255 in \<^verbatim>\<open>uint8\<close> arithmetic.
\<close>

definition vectorize_skeleton ::
  "(mask \<Rightarrow> contour list) \<Rightarrow> mask \<Rightarrow> real \<Rightarrow> Affine option \<Rightarrow> CRS option \<Rightarrow> int option
     \<Rightarrow> point option \<Rightarrow> GeoDataFrame" where
  "vectorize_skeleton findContours skel pixel_size transform cr epsg origin_xy =
     (let skel_u8 = map (map (\<lambda>v. v * 255)) skel;
          contours = findContours skel_u8
      in case (transform, cr) of
           (Some t, Some k) \<Rightarrow>
             \<lparr>geometry = geo_loop (tr_a t) (tr_e t) (tr_c t) (tr_f t) contours [],
              crs = Some k\<rparr>
         | _ \<Rightarrow>
             (let (x0, y0) = (case origin_xy of None \<Rightarrow> (0, 0) | Some xy \<Rightarrow> xy);
                  gdf = \<lparr>geometry = fallback_loop x0 y0 pixel_size contours [], crs = None\<rparr>
              in case epsg of None \<Rightarrow> gdf | Some code \<Rightarrow> set_crs gdf code))"

section \<open>Errors and external collaborators\<close>

text \<open>The exceptions that can end a run.\<close>

datatype error = RasterioIOError | UnboundLocalError | FileNotFoundError | ValueError

text \<open>
  The collaborators of the program that are not its own code: the optional rasterio
  import, the decoders, \<^verbatim>\<open>Path(path).suffix.lower()\<close>, the OpenCV and scikit-image
  operators, and the CRS operations of geopandas. Each is a field, so every theorem
  holds for whatever these libraries compute. A decoder that raises returns \<open>Inl\<close>;
  \<^verbatim>\<open>cv2.imread\<close> signals failure by returning \<^verbatim>\<open>None\<close>. An image is rows of pixels of
  channel samples of type \<open>'v\<close>.
\<close>

record 'v dataset =
  ds_read :: "'v list list list"
  ds_transform :: Affine
  ds_crs :: "CRS option"

record 'v env =
  rasterio_available :: bool
  suffix_lower :: "string \<Rightarrow> string"
  rasterio_open :: "string \<Rightarrow> error + 'v dataset"
  cv2_imread :: "string \<Rightarrow> 'v list list list option"
  cvtColor :: "'v list list list \<Rightarrow> 'v list list"
  GaussianBlur :: "'v list list \<Rightarrow> int \<Rightarrow> 'v list list"
  Canny :: "'v list list \<Rightarrow> int \<Rightarrow> int \<Rightarrow> mask"
  skeletonize :: "mask \<Rightarrow> bool list list"
  findContours :: "mask \<Rightarrow> contour list"
  to_crs :: "GeoDataFrame \<Rightarrow> int \<Rightarrow> error + GeoDataFrame"
  is_geographic :: "CRS \<Rightarrow> bool"

section \<open>Length filter\<close>

text \<open>
  \<^verbatim>\<open>gdf.geometry.length\<close>: the length of a line string is the sum of the Euclidean
  distances between consecutive vertices.
\<close>

definition segment_length :: "point \<Rightarrow> point \<Rightarrow> real" where
  "segment_length p q = sqrt ((fst q - fst p)\<^sup>2 + (snd q - snd p)\<^sup>2)"

fun line_length :: "linestring \<Rightarrow> real" where
  "line_length (p # q # rest) = segment_length p q + line_length (q # rest)"
| "line_length [p] = 0"
| "line_length [] = 0"

definition filter_by_length ::
  "'v env \<Rightarrow> GeoDataFrame \<Rightarrow> real \<Rightarrow> int option \<Rightarrow> error + GeoDataFrame" where
  "filter_by_length env gdf min_length_m project_epsg =
     (case (case project_epsg of None \<Rightarrow> Inr gdf | Some code \<Rightarrow> to_crs env gdf code) of
        Inl err \<Rightarrow> Inl err
      | Inr g \<Rightarrow>
          (if crs g = None \<or> is_geographic env (the (crs g)) then Inr g
           else Inr (g\<lparr>geometry := filter (\<lambda>l. min_length_m \<le> line_length l) (geometry g)\<rparr>)))"

section \<open>Ingestion\<close>

text \<open>
  \<^verbatim>\<open>np.transpose(arr, (1, 2, 0))[:, :, ::-1]\<close> on a three-band array (band, row, column):
  the pixel at (row, column) lists the bands in reverse order. A numpy array is
  rectangular, so every index below is in range.
\<close>

definition bands_to_bgr :: "'v list list list \<Rightarrow> 'v list list list" where
  "bands_to_bgr arr =
     map (\<lambda>r. map (\<lambda>k. rev (map (\<lambda>b. arr ! b ! r ! k) [0..<3]))
                [0..<length (arr ! 0 ! 0)])
         [0..<length (arr ! 0)]"

text \<open>\<^verbatim>\<open>np.stack([band, band, band], axis=-1)\<close>.\<close>

definition stack3 :: "'v list list \<Rightarrow> 'v list list list" where
  "stack3 band = map (map (\<lambda>v. [v, v, v])) band"

text \<open>
  \<^verbatim>\<open>read_image\<close>. With no band at all neither branch binds \<^verbatim>\<open>img\<close>, and the
  \<^verbatim>\<open>return\<close> raises.
\<close>

definition read_image ::
  "'v env \<Rightarrow> string \<Rightarrow> error + ('v list list list \<times> (Affine \<times> CRS option) option)" where
  "read_image env path =
     (let ext = suffix_lower env path
      in if rasterio_available env \<and> ext \<in> set [''.tif'', ''.tiff'']
         then (case rasterio_open env path of
                 Inl err \<Rightarrow> Inl err
               | Inr ds \<Rightarrow>
                   (let arr = ds_read ds
                    in if length arr = 3
                       then Inr (bands_to_bgr arr, Some (ds_transform ds, ds_crs ds))
                       else if 1 \<le> length arr
                       then Inr (stack3 (arr ! 0), Some (ds_transform ds, ds_crs ds))
                       else Inl UnboundLocalError))
         else (case cv2_imread env path of
                 None \<Rightarrow> Inl FileNotFoundError
               | Some img \<Rightarrow> Inr (img, None)))"

section \<open>Outputs\<close>

text \<open>
  The effects of a run are the calls it issues to the file system, in program order.
\<close>

datatype event =
    ImWrite string mask
  | RasterWrite string mask Affine CRS
  | MkDir string
  | ToFile string string "string option" GeoDataFrame

text \<open>The two events that write a raster file.\<close>

fun is_raster_write :: "event \<Rightarrow> bool" where
  "is_raster_write (ImWrite p m) = True"
| "is_raster_write (RasterWrite p m t k) = True"
| "is_raster_write (MkDir d) = False"
| "is_raster_write (ToFile d n layer g) = False"

text \<open>\<^verbatim>\<open>s.replace(".tif", ".png")\<close>: every occurrence, left to right.\<close>

function replace_tif_png :: "string \<Rightarrow> string" where
  "replace_tif_png s =
     (if prefix ''.tif'' s then ''.png'' @ replace_tif_png (drop 4 s)
      else (case s of [] \<Rightarrow> [] | ch # rest \<Rightarrow> ch # replace_tif_png rest))"
  by pat_completeness auto
termination
  by (relation "measure length") (auto simp: prefix_def)

text \<open>\<^verbatim>\<open>os.path.join(a, b)\<close> for a relative \<^verbatim>\<open>b\<close> (POSIX).\<close>

definition path_join :: "string \<Rightarrow> string \<Rightarrow> string" where
  "path_join a b = (if a = [] \<or> last a = CHR ''/'' then a @ b else a @ ''/'' @ b)"

definition save_binary ::
  "'v env \<Rightarrow> mask \<Rightarrow> string \<Rightarrow> Affine option \<Rightarrow> CRS option \<Rightarrow> event list" where
  "save_binary env binary out_path transform cr =
     (if \<not> rasterio_available env \<or> transform = None \<or> cr = None
      then [ImWrite (replace_tif_png out_path) (map (map (\<lambda>v. v * 255)) binary)]
      else [RasterWrite out_path binary (the transform) (the cr)])"

text \<open>
  \<^verbatim>\<open>write_vectors\<close>: the directory is made, then the frame is written. The result is the
  directory and the file name of the vector file.
\<close>

definition write_vectors :: "GeoDataFrame \<Rightarrow> string \<Rightarrow> bool \<Rightarrow> event list \<times> (string \<times> string)" where
  "write_vectors gdf out_dir as_gpkg =
     (if as_gpkg
      then ([MkDir out_dir, ToFile out_dir ''terrace_lines.gpkg'' (Some ''terraces'') gdf],
            (out_dir, ''terrace_lines.gpkg''))
      else ([MkDir out_dir, ToFile out_dir ''terrace_lines.shp'' None gdf],
            (out_dir, ''terrace_lines.shp'')))"

section \<open>Extractor and driver\<close>

definition astype_uint8 :: "bool list list \<Rightarrow> mask" where
  "astype_uint8 m = map (map (\<lambda>b. if b then 1 else 0)) m"

definition canny_and_skeleton :: "'v env \<Rightarrow> 'v list list list \<Rightarrow> int \<Rightarrow> int \<Rightarrow> int \<Rightarrow> mask \<times> mask" where
  "canny_and_skeleton env image_bgr t1 t2 ksize =
     (let gray = cvtColor env image_bgr;
          blurred = GaussianBlur env gray ksize;
          edges = Canny env blurred t1 t2;
          skel = astype_uint8 (skeletonize env (astype_uint8 (map (map (\<lambda>v. 0 < v)) edges)))
      in (astype_uint8 (map (map (\<lambda>v. 0 < v)) edges), skel))"

record args =
  arg_image :: string
  arg_out :: string
  arg_t1 :: int
  arg_t2 :: int
  arg_kernel :: int
  arg_min_length :: real
  arg_as_gpkg :: bool
  arg_epsg :: "int option"
  arg_pixel_size :: real
  arg_origin_x :: real
  arg_origin_y :: real
  arg_project_epsg :: "int option"

text \<open>
  \<^verbatim>\<open>main\<close> after argument parsing: the events issued, and the vector file or the
  exception that ended the run.
\<close>

definition main :: "'v env \<Rightarrow> args \<Rightarrow> event list \<times> (error + string \<times> string)" where
  "main env a =
     (case read_image env (arg_image a) of
        Inl err \<Rightarrow> ([], Inl err)
      | Inr (img, geo) \<Rightarrow>
          (let (transform, cr) = (case geo of None \<Rightarrow> (None, None) | Some (t, k) \<Rightarrow> (Some t, k));
               (edges_bin, skel) = canny_and_skeleton env img (arg_t1 a) (arg_t2 a) (arg_kernel a);
               ev1 = save_binary env edges_bin (path_join (arg_out a) ''terrace_edges.tif'') transform cr;
               ev2 = save_binary env skel (path_join (arg_out a) ''terrace_skeleton.tif'') transform cr;
               gdf = (if transform \<noteq> None \<and> cr \<noteq> None
                      then vectorize_skeleton (findContours env) skel (arg_pixel_size a)
                             transform cr None None
                      else vectorize_skeleton (findContours env) skel (arg_pixel_size a)
                             None None (arg_epsg a) (Some (arg_origin_x a, arg_origin_y a)))
           in case filter_by_length env gdf (arg_min_length a) (arg_project_epsg a) of
                Inl err \<Rightarrow> (ev1 @ ev2, Inl err)
              | Inr kept \<Rightarrow>
                  (let (ev3, vec_path) = write_vectors kept (arg_out a) (arg_as_gpkg a)
                   in (ev1 @ ev2 @ ev3, Inr vec_path))))"

section \<open>Sample inputs\<close>

text \<open>
  Concrete inputs on which the definitions are evaluated: a north-up UTM-style transform,
  a stand-in contour tracer (no contour on a blank image; otherwise a one-point contour,
  a two-point contour and an empty one), a one-band raster dataset, and two
  environments. In \<open>env_plain\<close> the raster codec rejects every file and the image
  decoder reads every file; in \<open>env_raster\<close> it is the other way round.
\<close>

definition utm_transform :: Affine where
  "utm_transform = \<lparr>tr_a = 3 / 10, tr_b = 0, tr_c = 500000, tr_d = 0, tr_e = - (3 / 10), tr_f = 4000000\<rparr>"

definition sample_tracer :: "mask \<Rightarrow> contour list" where
  "sample_tracer img = (if list_all (list_all (\<lambda>v. v = 0)) img then []
                        else [[(0, 0)], [(0, 0), (30, 40)], []])"

definition sample_dataset :: "nat dataset" where
  "sample_dataset = \<lparr>ds_read = [[[0, 7]]], ds_transform = utm_transform, ds_crs = Some (EPSG 32633)\<rparr>"

definition env_plain :: "nat env" where
  "env_plain = \<lparr>rasterio_available = True,
     suffix_lower = dropWhile (\<lambda>ch. ch \<noteq> CHR ''.''),
     rasterio_open = (\<lambda>p. Inl RasterioIOError),
     cv2_imread = (\<lambda>p. Some [[[0, 0, 0], [9, 9, 9]]]),
     cvtColor = map (map hd),
     GaussianBlur = (\<lambda>g k. g),
     Canny = (\<lambda>g t1 t2. map (map (\<lambda>v. if 0 < v then 255 else 0)) g),
     skeletonize = map (map (\<lambda>v. v \<noteq> 0)),
     findContours = sample_tracer,
     to_crs = (\<lambda>g code. if crs g = None then Inl ValueError else Inr (g\<lparr>crs := Some (EPSG code)\<rparr>)),
     is_geographic = (\<lambda>k. k = EPSG 4326)\<rparr>"

definition env_raster :: "nat env" where
  "env_raster = env_plain\<lparr>rasterio_open := (\<lambda>p. Inr sample_dataset), cv2_imread := (\<lambda>p. None)\<rparr>"

definition args_plain :: args where
  "args_plain = \<lparr>arg_image = ''photo.png'', arg_out = ''out'', arg_t1 = 50, arg_t2 = 150,
     arg_kernel = 3, arg_min_length = 5, arg_as_gpkg = False, arg_epsg = None,
     arg_pixel_size = 3 / 10, arg_origin_x = 0, arg_origin_y = 0, arg_project_epsg = None\<rparr>"

definition args_raster :: args where
  "args_raster = args_plain\<lparr>arg_image := ''scene.tif''\<rparr>"

definition gdf_projected :: GeoDataFrame where
  "gdf_projected = \<lparr>geometry = [[(0, 0), (3, 4)], [(0, 0), (1, 0), (1, 1)], [(0, 0), (0, 6)]],
     crs = Some (EPSG 32633)\<rparr>"

definition gdf_degrees :: GeoDataFrame where
  "gdf_degrees = \<lparr>geometry = [[(0, 0), (1, 0)]], crs = Some (EPSG 4326)\<rparr>"

section \<open>Properties of the vectorizer\<close>

lemma geo_loop_eq:
  "geo_loop a e c f cs lines =
     lines @ map (map (\<lambda>p. (c + of_int (fst p) * a, f + of_int (snd p) * e)))
               (filter (\<lambda>cnt. 2 \<le> length cnt) cs)"
  by (induction cs arbitrary: lines) (auto simp: LineString_def Let_def)

lemma fallback_loop_eq:
  "fallback_loop x0 y0 s cs lines =
     lines @ map (map (\<lambda>p. (x0 + of_int (fst p) * s, y0 - of_int (snd p) * s)))
               (filter (\<lambda>cnt. 2 \<le> length cnt) cs)"
  by (induction cs arbitrary: lines) (auto simp: LineString_def Let_def)

lemma geometry_set_crs: "geometry (set_crs g code) = geometry g"
  by (simp add: set_crs_def)

lemma vectorize_geo_geometry:
  "geometry (vectorize_skeleton fc skel ps (Some t) (Some k) epsg origin_xy) =
     map (map (\<lambda>p. (tr_c t + of_int (fst p) * tr_a t, tr_f t + of_int (snd p) * tr_e t)))
       (filter (\<lambda>cnt. 2 \<le> length cnt) (fc (map (map (\<lambda>v. v * 255)) skel)))"
  by (simp add: vectorize_skeleton_def geo_loop_eq)

lemma vectorize_fallback_geometry:
  assumes "transform = None \<or> cr = None"
  shows "geometry (vectorize_skeleton fc skel ps transform cr epsg origin_xy) =
     map (map (\<lambda>p. (fst (case origin_xy of None \<Rightarrow> (0, 0) | Some xy \<Rightarrow> xy) + of_int (fst p) * ps,
                     snd (case origin_xy of None \<Rightarrow> (0, 0) | Some xy \<Rightarrow> xy) - of_int (snd p) * ps)))
       (filter (\<lambda>cnt. 2 \<le> length cnt) (fc (map (map (\<lambda>v. v * 255)) skel)))"
  using assms
  by (auto simp: vectorize_skeleton_def fallback_loop_eq geometry_set_crs Let_def
           split: option.splits prod.splits)

text \<open>
  C1. On the georeferenced path (transform and CRS both present) every traced pixel
  (col, row) of a contour that is kept becomes the world point
  (c + col * a, f + row * e); the rotation terms b and d have no influence on the
  result; and with a = 0.3, e = -0.3, c = 500000, f = 4000000 the pixel (10, 20) becomes
  (500003, 3999994).
\<close>

theorem vectorize_georeferenced_mapping:
  "geometry (vectorize_skeleton fc skel ps (Some t) (Some k) epsg origin_xy) =
     map (map (\<lambda>p. (tr_c t + of_int (fst p) * tr_a t, tr_f t + of_int (snd p) * tr_e t)))
       (filter (\<lambda>cnt. 2 \<le> length cnt) (fc (map (map (\<lambda>v. v * 255)) skel)))
   \<and> vectorize_skeleton fc skel ps (Some (t\<lparr>tr_b := b', tr_d := d'\<rparr>)) (Some k) epsg origin_xy =
     vectorize_skeleton fc skel ps (Some t) (Some k) epsg origin_xy
   \<and> (tr_a t = 3 / 10 \<and> tr_e t = - (3 / 10) \<and> tr_c t = 500000 \<and> tr_f t = 4000000 \<longrightarrow>
        geometry (vectorize_skeleton (\<lambda>m. [[(10, 20), (11, 20)]]) skel ps (Some t) (Some k) epsg origin_xy)
          = [[(500003, 3999994), (5000033 / 10, 3999994)]])"
  by (simp add: vectorize_skeleton_def geo_loop_eq)

theorem vectorize_georeferenced_mapping_witness:
  "geometry (vectorize_skeleton (\<lambda>m. [[(10, 20), (11, 20)]]) [[1, 1]] 1 (Some utm_transform)
       (Some (EPSG 32633)) None None)
     = [[(500003, 3999994), (5000033 / 10, 3999994)]]"
  using vectorize_georeferenced_mapping
    [of "\<lambda>m. [[(10, 20), (11, 20)]]" "[[1, 1]]" 1 utm_transform "EPSG 32633" None None 0 0]
  by (simp add: utm_transform_def)

text \<open>
  C2. On the fallback path (transform or CRS absent) every traced pixel (col, row) of a
  contour that is kept becomes (origin_x + col * pixel_size, origin_y - row * pixel_size),
  the origin being (0, 0) when none is given; and the diagonal trace (0,0), (1,1), ...,
  (n,n), n > 0, with pixel size 1 and origin (0, 0) becomes the one line (0,0), (1,-1),
  ..., (n,-n), which starts at (0, 0) and ends at (n, -n).
\<close>

theorem vectorize_fallback_mapping:
  "(transform = None \<or> cr = None \<longrightarrow>
      geometry (vectorize_skeleton fc skel ps transform cr epsg (Some (x0, y0))) =
        map (map (\<lambda>p. (x0 + of_int (fst p) * ps, y0 - of_int (snd p) * ps)))
          (filter (\<lambda>cnt. 2 \<le> length cnt) (fc (map (map (\<lambda>v. v * 255)) skel))))
   \<and> (transform = None \<or> cr = None \<longrightarrow>
      geometry (vectorize_skeleton fc skel ps transform cr epsg None) =
        map (map (\<lambda>p. (0 + of_int (fst p) * ps, 0 - of_int (snd p) * ps)))
          (filter (\<lambda>cnt. 2 \<le> length cnt) (fc (map (map (\<lambda>v. v * 255)) skel))))
   \<and> (0 < n \<longrightarrow>
      geometry (vectorize_skeleton (\<lambda>m. [map (\<lambda>i. (i, i)) [0..n]]) skel 1 None None epsg None) =
        [map (\<lambda>i. (of_int i, - of_int i)) [0..n]]
      \<and> geometry (vectorize_skeleton (\<lambda>m. [map (\<lambda>i. (i, i)) [0..n]]) skel 1 None None epsg
                     (Some (0, 0))) =
        [map (\<lambda>i. (of_int i, - of_int i)) [0..n]]
      \<and> hd (map (\<lambda>i. (of_int i :: real, - of_int i :: real)) [0..n]) = (0, 0)
      \<and> last (map (\<lambda>i. (of_int i :: real, - of_int i :: real)) [0..n]) = (of_int n, - of_int n))"
proof (intro conjI impI)
  assume "transform = None \<or> cr = None"
  then show "geometry (vectorize_skeleton fc skel ps transform cr epsg (Some (x0, y0))) =
        map (map (\<lambda>p. (x0 + of_int (fst p) * ps, y0 - of_int (snd p) * ps)))
          (filter (\<lambda>cnt. 2 \<le> length cnt) (fc (map (map (\<lambda>v. v * 255)) skel)))"
    by (simp add: vectorize_fallback_geometry)
next
  assume "transform = None \<or> cr = None"
  then show "geometry (vectorize_skeleton fc skel ps transform cr epsg None) =
        map (map (\<lambda>p. (0 + of_int (fst p) * ps, 0 - of_int (snd p) * ps)))
          (filter (\<lambda>cnt. 2 \<le> length cnt) (fc (map (map (\<lambda>v. v * 255)) skel)))"
    by (simp add: vectorize_fallback_geometry)
next
  assume n: "0 < n"
  then have len: "2 \<le> length [0..n]" by simp
  show "geometry (vectorize_skeleton (\<lambda>m. [map (\<lambda>i. (i, i)) [0..n]]) skel 1 None None epsg None) =
        [map (\<lambda>i. (of_int i, - of_int i)) [0..n]]"
    using len by (simp add: vectorize_fallback_geometry o_def)
  show "geometry (vectorize_skeleton (\<lambda>m. [map (\<lambda>i. (i, i)) [0..n]]) skel 1 None None epsg
                     (Some (0, 0))) =
        [map (\<lambda>i. (of_int i, - of_int i)) [0..n]]"
    using len by (simp add: vectorize_fallback_geometry o_def)
  have ne: "[0..n] \<noteq> []" using n by simp
  have "hd [0..n] = 0" using n by (simp add: upto.simps)
  then show "hd (map (\<lambda>i. (of_int i :: real, - of_int i :: real)) [0..n]) = (0, 0)"
    using ne by (simp add: hd_map)
  have "last [0..n] = n" using n upto_rec2 [of 0 n] by simp
  then show "last (map (\<lambda>i. (of_int i :: real, - of_int i :: real)) [0..n]) = (of_int n, - of_int n)"
    using ne by (simp add: last_map)
qed

theorem vectorize_fallback_mapping_witness:
  "geometry (vectorize_skeleton (\<lambda>m. [map (\<lambda>i. (i, i)) [0..3]]) [[1]] 1 None None (Some 4326) None) =
     [[(0, 0), (1, -1), (2, -2), (3, -3)]]
   \<and> geometry (vectorize_skeleton (\<lambda>m. [[(2, 5), (3, 5)]]) [[1]] (1 / 2) None None (Some 4326)
         (Some (100, 200))) = [[(101, 395 / 2), (203 / 2, 395 / 2)]]"
  using vectorize_fallback_mapping
    [of None None "\<lambda>m. [[(2, 5), (3, 5)]]" "[[1]]" "1 / 2" "Some 4326" 100 200 3]
  by (simp add: upto.simps)

text \<open>
  C8. Whatever the mask and the mapping branch, every geometry of the returned collection
  has at least two points, and the collection has exactly one geometry per traced contour
  of at least two vertices: shorter contours leave nothing behind, no placeholder either.
\<close>

theorem vectorize_geometries_have_two_points:
  "(\<forall>l \<in> set (geometry (vectorize_skeleton fc skel ps transform cr epsg origin_xy)). 2 \<le> length l)
   \<and> length (geometry (vectorize_skeleton fc skel ps transform cr epsg origin_xy)) =
       length (filter (\<lambda>cnt. 2 \<le> length cnt) (fc (map (map (\<lambda>v. v * 255)) skel)))"
proof (cases "transform = None \<or> cr = None")
  case True
  then show ?thesis by (auto simp: vectorize_fallback_geometry)
next
  case False
  then obtain t k where "transform = Some t" "cr = Some k" by auto
  then show ?thesis by (auto simp: vectorize_geo_geometry)
qed

theorem vectorize_geometries_have_two_points_witness:
  "geometry (vectorize_skeleton sample_tracer [[1, 0]] 1 None None None None) = [[(0, 0), (30, -40)]]
   \<and> list_all (\<lambda>l. 2 \<le> length l)
         (geometry (vectorize_skeleton sample_tracer [[1, 0]] 1 None None None None))"
  using vectorize_geometries_have_two_points [of sample_tracer "[[1, 0]]" 1 None None None None]
  by (simp add: vectorize_fallback_geometry sample_tracer_def)

text \<open>
  C9. For a skeleton mask without foreground pixel the vectorizer returns a collection
  with no geometry, on both mapping paths, given that the contour tracer finds no contour
  in a blank image. The function is total: there is no error to raise.
\<close>

theorem vectorize_blank_mask_empty:
  assumes blank: "\<forall>img. (\<forall>r \<in> set img. \<forall>v \<in> set r. v = 0) \<longrightarrow> fc img = []"
    and zero: "\<forall>r \<in> set skel. \<forall>v \<in> set r. v = 0"
  shows "geometry (vectorize_skeleton fc skel ps transform cr epsg origin_xy) = []"
proof -
  have "\<forall>r \<in> set (map (map (\<lambda>v. v * 255)) skel). \<forall>v \<in> set r. v = (0::8 word)"
    using zero by fastforce
  then have none: "fc (map (map (\<lambda>v. v * 255)) skel) = []"
    using blank by blast
  show ?thesis
  proof (cases "transform = None \<or> cr = None")
    case True
    then show ?thesis by (simp add: vectorize_fallback_geometry none)
  next
    case False
    then obtain t k where "transform = Some t" "cr = Some k" by auto
    then show ?thesis by (simp add: vectorize_geo_geometry none)
  qed
qed

theorem vectorize_blank_mask_empty_witness:
  "geometry (vectorize_skeleton sample_tracer [[0, 0], [0, 0]] 1 None None None None) = []
   \<and> geometry (vectorize_skeleton sample_tracer [[0, 0], [0, 0]] 1 (Some utm_transform)
         (Some (EPSG 32633)) None None) = []"
proof -
  have h1: "\<forall>img. (\<forall>r \<in> set img. \<forall>v \<in> set r. v = 0) \<longrightarrow> sample_tracer img = []"
    by (simp add: sample_tracer_def list_all_iff)
  have h2: "\<forall>r \<in> set [[0, 0], [0, 0 :: 8 word]]. \<forall>v \<in> set r. v = 0" by simp
  show ?thesis
    using vectorize_blank_mask_empty [OF h1 h2, of 1 None None None None]
      vectorize_blank_mask_empty [OF h1 h2, of 1 "Some utm_transform" "Some (EPSG 32633)" None None]
    by blast
qed

section \<open>Properties of the length filter\<close>

lemma count_list_filter_keep: "P x \<Longrightarrow> count_list (filter P xs) x = count_list xs x"
  by (induction xs) auto

text \<open>The length of a line is the sum of the distances between consecutive vertices.\<close>

lemma line_length_sum:
  "line_length l = (\<Sum>i<length l - 1. segment_length (l ! i) (l ! Suc i))"
proof (induction l rule: line_length.induct)
  case (1 p q rest)
  have "(\<Sum>i<Suc (length rest). segment_length ((p # q # rest) ! i) ((p # q # rest) ! Suc i))
        = segment_length p q + (\<Sum>i<length rest. segment_length ((q # rest) ! i) ((q # rest) ! Suc i))"
    by (subst sum.lessThan_Suc_shift) simp
  with 1 show ?case by simp
qed simp_all

lemma env_plain_sel:
  "rasterio_available env_plain" "findContours env_plain = sample_tracer"
  "is_geographic env_plain = (\<lambda>k. k = EPSG 4326)"
  "to_crs env_plain = (\<lambda>g code. if crs g = None then Inl ValueError else Inr (g\<lparr>crs := Some (EPSG code)\<rparr>))"
  by (simp_all add: env_plain_def)

lemma env_raster_sel:
  "rasterio_available env_raster" "findContours env_raster = sample_tracer"
  "is_geographic env_raster = (\<lambda>k. k = EPSG 4326)"
  by (simp_all add: env_plain_def env_raster_def)

text \<open>
  C5. When the collection, after the optional reprojection, has no CRS or a geographic
  one, the filter returns that collection as it is, whatever the minimum length; without
  reprojection this is the input collection itself. The result is a value, not an error.
\<close>

theorem filter_skipped_without_linear_units:
  assumes "(case project_epsg of None \<Rightarrow> Inr gdf | Some code \<Rightarrow> to_crs env gdf code) = Inr g"
    and "crs g = None \<or> (\<exists>k. crs g = Some k \<and> is_geographic env k)"
  shows "filter_by_length env gdf m project_epsg = Inr g
         \<and> (project_epsg = None \<longrightarrow> filter_by_length env gdf m project_epsg = Inr gdf)"
  using assms by (auto simp: filter_by_length_def)

theorem filter_skipped_without_linear_units_witness:
  "filter_by_length env_plain gdf_degrees 5 None = Inr gdf_degrees
   \<and> filter_by_length env_plain gdf_projected 5 (Some 4326) = Inr (gdf_projected\<lparr>crs := Some (EPSG 4326)\<rparr>)
   \<and> filter_by_length env_plain \<lparr>geometry = [[(0, 0), (1, 0)]], crs = None\<rparr> 1000 None
       = Inr \<lparr>geometry = [[(0, 0), (1, 0)]], crs = None\<rparr>"
proof -
  have a: "filter_by_length env_plain gdf_degrees 5 None = Inr gdf_degrees"
    using filter_skipped_without_linear_units
      [where project_epsg = None and gdf = gdf_degrees and env = env_plain and g = gdf_degrees
         and m = 5]
    by (simp add: env_plain_sel gdf_degrees_def)
  have b: "filter_by_length env_plain gdf_projected 5 (Some 4326)
             = Inr (gdf_projected\<lparr>crs := Some (EPSG 4326)\<rparr>)"
    using filter_skipped_without_linear_units
      [where project_epsg = "Some 4326" and gdf = gdf_projected and env = env_plain
         and g = "gdf_projected\<lparr>crs := Some (EPSG 4326)\<rparr>" and m = 5]
    by (simp add: env_plain_sel gdf_projected_def)
  have c: "filter_by_length env_plain \<lparr>geometry = [[(0, 0), (1, 0)]], crs = None\<rparr> 1000 None
             = Inr \<lparr>geometry = [[(0, 0), (1, 0)]], crs = None\<rparr>"
    using filter_skipped_without_linear_units
      [where project_epsg = None and gdf = "\<lparr>geometry = [[(0, 0), (1, 0)]], crs = None\<rparr>"
         and env = env_plain and g = "\<lparr>geometry = [[(0, 0), (1, 0)]], crs = None\<rparr>"
         and m = 1000]
    by simp
  from a b c show ?thesis by simp
qed

text \<open>
  C6. When the collection, after the optional reprojection, has a projected CRS, the
  filter keeps exactly the geometries whose path length is at least the minimum length:
  a geometry is in the result if and only if it is in the collection and is long enough,
  each one as often as before, in the same order, with its points untouched; the CRS is
  kept.
\<close>

theorem filter_keeps_exactly_long_geometries:
  assumes "(case project_epsg of None \<Rightarrow> Inr gdf | Some code \<Rightarrow> to_crs env gdf code) = Inr g"
    and "crs g = Some k" and "\<not> is_geographic env k"
  shows "\<exists>kept. filter_by_length env gdf m project_epsg = Inr kept
           \<and> crs kept = crs g
           \<and> geometry kept = filter (\<lambda>l. m \<le> line_length l) (geometry g)
           \<and> (\<forall>l. l \<in> set (geometry kept) \<longleftrightarrow> l \<in> set (geometry g) \<and> m \<le> line_length l)
           \<and> (\<forall>l. m \<le> line_length l \<longrightarrow> count_list (geometry kept) l = count_list (geometry g) l)
           \<and> subseq (geometry kept) (geometry g)"
proof -
  have "filter_by_length env gdf m project_epsg =
          Inr (g\<lparr>geometry := filter (\<lambda>l. m \<le> line_length l) (geometry g)\<rparr>)"
    using assms by (simp add: filter_by_length_def)
  moreover have "\<forall>l. m \<le> line_length l \<longrightarrow>
      count_list (filter (\<lambda>l. m \<le> line_length l) (geometry g)) l = count_list (geometry g) l"
    by (simp add: count_list_filter_keep)
  ultimately show ?thesis by auto
qed

theorem filter_keeps_exactly_long_geometries_witness:
  "filter_by_length env_plain gdf_projected 5 None
     = Inr \<lparr>geometry = [[(0, 0), (3, 4)], [(0, 0), (0, 6)]], crs = Some (EPSG 32633)\<rparr>"
proof -
  have "\<exists>kept. filter_by_length env_plain gdf_projected 5 None = Inr kept
           \<and> crs kept = crs gdf_projected
           \<and> geometry kept = filter (\<lambda>l. 5 \<le> line_length l) (geometry gdf_projected)
           \<and> (\<forall>l. l \<in> set (geometry kept) \<longleftrightarrow> l \<in> set (geometry gdf_projected) \<and> 5 \<le> line_length l)
           \<and> (\<forall>l. 5 \<le> line_length l \<longrightarrow> count_list (geometry kept) l = count_list (geometry gdf_projected) l)
           \<and> subseq (geometry kept) (geometry gdf_projected)"
    using filter_keeps_exactly_long_geometries
      [where project_epsg = None and gdf = gdf_projected and env = env_plain and g = gdf_projected
         and k = "EPSG 32633" and m = 5]
    by (simp add: env_plain_sel gdf_projected_def)
  then obtain kept where k: "filter_by_length env_plain gdf_projected 5 None = Inr kept"
    "crs kept = crs gdf_projected"
    "geometry kept = filter (\<lambda>l. 5 \<le> line_length l) (geometry gdf_projected)"
    by blast
  have "kept = \<lparr>geometry = [[(0, 0), (3, 4)], [(0, 0), (0, 6)]], crs = Some (EPSG 32633)\<rparr>"
    using k(2,3) by (cases kept) (simp add: gdf_projected_def segment_length_def)
  with k(1) show ?thesis by simp
qed

section \<open>Properties of ingestion\<close>

lemma no_band_iff: "(\<not> Suc 0 \<le> length xs) = (xs = [])"
  by (cases xs) auto

lemma read_image_plain_png:
  "read_image env_plain ''photo.png'' = Inr ([[[0, 0, 0], [9, 9, 9]]], None)"
  by (simp add: read_image_def env_plain_def)

lemma read_image_plain_tif: "read_image env_plain ''scene.tif'' = Inl RasterioIOError"
  by (simp add: read_image_def env_plain_def)

lemma read_image_raster_asc: "read_image env_raster ''dem.asc'' = Inl FileNotFoundError"
  by (simp add: read_image_def env_plain_def env_raster_def)

lemma read_image_raster_tif:
  "read_image env_raster ''scene.tif'' =
     Inr ([[[0, 0, 0], [7, 7, 7]]], Some (utm_transform, Some (EPSG 32633)))"
  by (simp add: read_image_def env_plain_def env_raster_def sample_dataset_def stack3_def)

text \<open>
  C7, as stated, fails: \<^verbatim>\<open>dem.asc\<close> is a file the raster codec decodes, so it is not
  undecodable by both ingestion paths; its extension sends it to the image decoder,
  which returns nothing, and ingestion fails.
\<close>

theorem read_image_fails_on_raster_decodable_file:
  "read_image env_raster ''dem.asc'' = Inl FileNotFoundError
   \<and> rasterio_open env_raster ''dem.asc'' = Inr sample_dataset"
  by (simp add: read_image_raster_asc) (simp add: env_raster_def env_plain_def)

text \<open>
  C7, amended. Ingestion fails exactly when the one path that the codec's availability
  and the file extension select fails: the raster codec raises or delivers no band, or
  the image decoder returns nothing. So it fails whenever neither path can decode the
  file (a missing file among them), and the failure is final: what the path not taken
  would have done with the file changes nothing.
\<close>

theorem read_image_fails_iff_selected_path_fails:
  "(isl (read_image env path) \<longleftrightarrow>
      (if rasterio_available env \<and> suffix_lower env path \<in> {''.tif'', ''.tiff''}
       then (case rasterio_open env path of Inl err \<Rightarrow> True | Inr ds \<Rightarrow> ds_read ds = [])
       else cv2_imread env path = None))
   \<and> (isl (rasterio_open env path) \<and> cv2_imread env path = None \<longrightarrow> isl (read_image env path))
   \<and> (rasterio_available env \<and> suffix_lower env path \<in> {''.tif'', ''.tiff''} \<longrightarrow>
        read_image (env\<lparr>cv2_imread := other_imread\<rparr>) path = read_image env path)
   \<and> (\<not> (rasterio_available env \<and> suffix_lower env path \<in> {''.tif'', ''.tiff''}) \<longrightarrow>
        read_image (env\<lparr>rasterio_open := other_open\<rparr>) path = read_image env path)"
  by (auto simp: read_image_def Let_def no_band_iff split: sum.splits option.splits)

theorem read_image_fails_iff_selected_path_fails_witness:
  "isl (read_image env_plain ''scene.tif'')
   \<and> \<not> isl (read_image env_plain ''photo.png'')
   \<and> read_image (env_plain\<lparr>cv2_imread := (\<lambda>p. None)\<rparr>) ''scene.tif'' = Inl RasterioIOError
   \<and> read_image (env_plain\<lparr>rasterio_open := (\<lambda>p. Inr sample_dataset)\<rparr>) ''photo.png''
       = Inr ([[[0, 0, 0], [9, 9, 9]]], None)"
proof -
  have sel: "rasterio_available env_plain" "suffix_lower env_plain ''scene.tif'' = ''.tif''"
    "suffix_lower env_plain ''photo.png'' = ''.png''"
    "rasterio_open env_plain ''scene.tif'' = Inl RasterioIOError"
    "cv2_imread env_plain ''photo.png'' = Some [[[0, 0, 0], [9, 9, 9]]]"
    by (simp_all add: env_plain_def)
  have a: "isl (read_image env_plain ''scene.tif'')"
    using read_image_fails_iff_selected_path_fails [of env_plain "''scene.tif''"] sel by simp
  have b: "\<not> isl (read_image env_plain ''photo.png'')"
    using read_image_fails_iff_selected_path_fails [of env_plain "''photo.png''"] sel by simp
  have c: "read_image (env_plain\<lparr>cv2_imread := (\<lambda>p. None)\<rparr>) ''scene.tif'' = Inl RasterioIOError"
    using read_image_fails_iff_selected_path_fails
      [where env = env_plain and path = "''scene.tif''" and other_imread = "\<lambda>p. None"] sel
    by (simp add: read_image_plain_tif)
  have d: "read_image (env_plain\<lparr>rasterio_open := (\<lambda>p. Inr sample_dataset)\<rparr>) ''photo.png''
       = Inr ([[[0, 0, 0], [9, 9, 9]]], None)"
    using read_image_fails_iff_selected_path_fails
      [where env = env_plain and path = "''photo.png''" and other_open = "\<lambda>p. Inr sample_dataset"] sel
    by (simp add: read_image_plain_png)
  from a b c d show ?thesis by simp
qed

section \<open>Properties of the driver\<close>

lemma canny_and_skeleton_plain:
  "canny_and_skeleton env_plain [[[0, 0, 0], [9, 9, 9]]] 50 150 3 = ([[0, 1]], [[0, 1]])"
  by (simp add: canny_and_skeleton_def env_plain_def astype_uint8_def)

lemma canny_and_skeleton_raster:
  "canny_and_skeleton env_raster [[[0, 0, 0], [7, 7, 7]]] 50 150 3 = ([[0, 1]], [[0, 1]])"
  by (simp add: canny_and_skeleton_def env_plain_def env_raster_def astype_uint8_def)

text \<open>The masks the extractor hands on hold only 0 and 1.\<close>

lemma astype_uint8_binary: "\<forall>r \<in> set (astype_uint8 m). \<forall>v \<in> set r. v = 0 \<or> v = 1"
  by (auto simp: astype_uint8_def)

lemma save_binary_plain:
  "\<not> rasterio_available env \<or> transform = None \<or> cr = None \<Longrightarrow>
     save_binary env binary out_path transform cr =
       [ImWrite (replace_tif_png out_path) (map (map (\<lambda>v. v * 255)) binary)]"
  by (simp add: save_binary_def)

lemma save_binary_georeferenced:
  "rasterio_available env \<Longrightarrow>
     save_binary env binary out_path (Some t) (Some k) = [RasterWrite out_path binary t k]"
  by (simp add: save_binary_def)

text \<open>
  A run that reaches the vector writer has issued four events: the two raster writes,
  then the creation of the output directory, then the vector file.
\<close>

lemma save_binary_single:
  "\<exists>w. save_binary env binary out_path transform cr = [w] \<and> is_raster_write w"
  by (simp add: save_binary_def)

lemma write_vectors_events:
  "\<exists>v. fst (write_vectors gdf out_dir as_gpkg) = [MkDir out_dir, v] \<and> \<not> is_raster_write v"
  by (simp add: write_vectors_def)

lemma main_events_order:
  assumes "main env a = (evs, Inr p)"
  shows "\<exists>w1 w2 v. evs = [w1, w2, MkDir (arg_out a), v] \<and> is_raster_write w1 \<and> is_raster_write w2
           \<and> \<not> is_raster_write v"
proof -
  obtain img geo where r: "read_image env (arg_image a) = Inr (img, geo)"
    using assms by (cases "read_image env (arg_image a)") (auto simp: main_def)
  obtain transform cr where g: "(case geo of None \<Rightarrow> (None, None) | Some (t, k) \<Rightarrow> (Some t, k)) = (transform, cr)"
    by (cases "case geo of None \<Rightarrow> (None, None) | Some (t, k) \<Rightarrow> (Some t, k)") blast
  obtain edges_bin skel where
    c: "canny_and_skeleton env img (arg_t1 a) (arg_t2 a) (arg_kernel a) = (edges_bin, skel)"
    by (cases "canny_and_skeleton env img (arg_t1 a) (arg_t2 a) (arg_kernel a)") blast
  obtain w1 where w1: "save_binary env edges_bin (path_join (arg_out a) ''terrace_edges.tif'') transform cr = [w1]"
    "is_raster_write w1"
    using save_binary_single by blast
  obtain w2 where w2: "save_binary env skel (path_join (arg_out a) ''terrace_skeleton.tif'') transform cr = [w2]"
    "is_raster_write w2"
    using save_binary_single by blast
  define gdf where "gdf = (if transform \<noteq> None \<and> cr \<noteq> None
                      then vectorize_skeleton (findContours env) skel (arg_pixel_size a)
                             transform cr None None
                      else vectorize_skeleton (findContours env) skel (arg_pixel_size a)
                             None None (arg_epsg a) (Some (arg_origin_x a, arg_origin_y a)))"
  have m: "main env a =
     (case filter_by_length env gdf (arg_min_length a) (arg_project_epsg a) of
        Inl err \<Rightarrow> ([w1, w2], Inl err)
      | Inr kept \<Rightarrow> ([w1, w2] @ fst (write_vectors kept (arg_out a) (arg_as_gpkg a)),
                     Inr (snd (write_vectors kept (arg_out a) (arg_as_gpkg a)))))"
    unfolding main_def r
    apply (simp only: sum.case prod.case g c Let_def w1 w2 gdf_def [symmetric])
    apply (simp split: sum.splits prod.splits)
    done
  obtain kept where k: "filter_by_length env gdf (arg_min_length a) (arg_project_epsg a) = Inr kept"
    using assms m by (cases "filter_by_length env gdf (arg_min_length a) (arg_project_epsg a)") auto
  obtain v where v: "fst (write_vectors kept (arg_out a) (arg_as_gpkg a)) = [MkDir (arg_out a), v]"
    "\<not> is_raster_write v"
    using write_vectors_events by blast
  have "evs = [w1, w2, MkDir (arg_out a), v]"
    using assms m k v by simp
  with w1 w2 v show ?thesis by blast
qed

text \<open>
  C3. A run on a georeferenced raster (\<^verbatim>\<open>scene.tif\<close>, read by the raster codec, with
  transform and CRS) writes both masks through the GeoTIFF branch of \<^verbatim>\<open>save_binary\<close>,
  which stores the mask as it is: the foreground pixel is stored as 1, not 255.
\<close>

theorem main_georeferenced_masks_stored_as_one:
  "fst (main env_raster args_raster) =
     [RasterWrite ''out/terrace_edges.tif'' [[0, 1]] utm_transform (EPSG 32633),
      RasterWrite ''out/terrace_skeleton.tif'' [[0, 1]] utm_transform (EPSG 32633),
      MkDir ''out'',
      ToFile ''out'' ''terrace_lines.shp'' None
        \<lparr>geometry = [[(500000, 4000000), (500009, 3999988)]], crs = Some (EPSG 32633)\<rparr>]"
  by (simp add: main_def read_image_raster_tif args_plain_def args_raster_def
      canny_and_skeleton_raster save_binary_def path_join_def write_vectors_def
      filter_by_length_def vectorize_skeleton_def env_raster_sel sample_tracer_def LineString_def
      utm_transform_def segment_length_def)

text \<open>
  C4. A run on a plain image issues its calls in this order: the edge mask is written,
  the skeleton mask is written, and only then is the output directory created, just
  before the vector file. The directory is not created before the raster writes.
\<close>

theorem main_creates_directory_after_raster_writes:
  "main env_plain args_plain =
     ([ImWrite ''out/terrace_edges.png'' [[0, 255]],
       ImWrite ''out/terrace_skeleton.png'' [[0, 255]],
       MkDir ''out'',
       ToFile ''out'' ''terrace_lines.shp'' None \<lparr>geometry = [[(0, 0), (9, - 12)]], crs = None\<rparr>],
      Inr (''out'', ''terrace_lines.shp''))"
  by (simp add: main_def read_image_plain_png args_plain_def canny_and_skeleton_plain
      save_binary_def path_join_def write_vectors_def filter_by_length_def
      vectorize_skeleton_def env_plain_sel sample_tracer_def LineString_def)

text \<open>
  C10. With transform and CRS present the vectorizer's result does not depend on the
  pixel size, the fallback origin or the fallback EPSG code; and a whole run whose input
  was read with transform and CRS gives the same events and the same result whatever
  these three options are.
\<close>

theorem geocontext_result_ignores_fallback_inputs:
  "vectorize_skeleton fc skel ps_a (Some t) (Some k) epsg_a origin_a =
     vectorize_skeleton fc skel ps_b (Some t) (Some k) epsg_b origin_b
   \<and> (read_image env (arg_image a) = Inr (img, Some (t, Some k)) \<longrightarrow>
        main env (a\<lparr>arg_pixel_size := ps, arg_epsg := e, arg_origin_x := x, arg_origin_y := y\<rparr>)
          = main env a)"
  by (auto simp: main_def vectorize_skeleton_def Let_def split: prod.splits sum.splits)

theorem geocontext_result_ignores_fallback_inputs_witness:
  "main env_raster (args_raster\<lparr>arg_pixel_size := 7, arg_epsg := Some 4326, arg_origin_x := 1,
       arg_origin_y := 2\<rparr>) = main env_raster args_raster
   \<and> vectorize_skeleton sample_tracer [[0, 1]] 7 (Some utm_transform) (Some (EPSG 32633))
         (Some 4326) (Some (1, 2))
       = vectorize_skeleton sample_tracer [[0, 1]] (3 / 10) (Some utm_transform) (Some (EPSG 32633))
         None None"
proof -
  have r: "read_image env_raster (arg_image args_raster) =
             Inr ([[[0, 0, 0], [7, 7, 7]]], Some (utm_transform, Some (EPSG 32633)))"
    by (simp add: args_raster_def read_image_raster_tif)
  show ?thesis
    using r geocontext_result_ignores_fallback_inputs
      [where env = env_raster and a = args_raster and img = "[[[0, 0, 0], [7, 7, 7]]]"
         and t = utm_transform and k = "EPSG 32633" and ps = 7 and e = "Some 4326" and x = 1
         and y = 2 and fc = sample_tracer and skel = "[[0, 1]]" and ps_a = 7 and ps_b = "3 / 10"
         and epsg_a = "Some 4326" and epsg_b = None and origin_a = "Some (1, 2)" and origin_b = None]
    by simp
qed

end
